theory Spec2Isabelle
  imports Main "HOL-Library.Word" "HOL-Library.AList"
begin

unbundle bit_operations_syntax

section \<open>JavaScript values used by the session layer of \<^verbatim>\<open>src/main.js\<close>\<close>

text \<open>
  A JavaScript string is a sequence of 16-bit code units; a Node \<^verbatim>\<open>Buffer\<close> is a
  sequence of bytes. The handlers of the pseudo-terminal backend receive strings, the
  handlers of the pipe backend receive buffers (no encoding is set on the streams).
\<close>

type_synonym code_unit = "16 word"
type_synonym js_string = "code_unit list"
type_synonym byte = "8 word"
type_synonym buffer = "byte list"

text \<open>String literals of the source, written with their ASCII characters.\<close>

definition lit :: "string \<Rightarrow> js_string" where
  "lit s = map (\<lambda>c. of_char c) s"

subsection \<open>\<^verbatim>\<open>String.prototype.trim\<close>\<close>

text \<open>
  \<^verbatim>\<open>trim\<close> removes white space and line terminators from both ends: TAB, LF, VT, FF, CR,
  SPACE, NBSP, U+1680, U+2000 to U+200A, U+2028, U+2029, U+202F, U+205F, U+3000, U+FEFF.
\<close>

definition isWhiteSpace :: "code_unit \<Rightarrow> bool" where
  "isWhiteSpace c =
     (c \<in> set [0x09, 0x0A, 0x0B, 0x0C, 0x0D, 0x20, 0xA0, 0x1680, 0x2028, 0x2029,
                 0x202F, 0x205F, 0x3000, 0xFEFF]
      \<or> (0x2000 \<le> c \<and> c \<le> 0x200A))"

definition trim :: "js_string \<Rightarrow> js_string" where
  "trim s = rev (dropWhile isWhiteSpace (rev (dropWhile isWhiteSpace s)))"

subsection \<open>\<^verbatim>\<open>Number.prototype.toString\<close> on the integers \<^verbatim>\<open>Date.now()\<close> returns\<close>

text \<open>
  \<^verbatim>\<open>Date.now()\<close> is an integer number of milliseconds of magnitude below \<open>8.64e15\<close>, which
  \<^verbatim>\<open>toString\<close> prints in plain decimal notation, with a leading minus sign when negative.
\<close>

fun digits :: "nat \<Rightarrow> js_string" where
  "digits n = (if n < 10 then [0x30 + of_nat n]
               else digits (n div 10) @ [0x30 + of_nat (n mod 10)])"

declare digits.simps [simp del]

definition toString :: "int \<Rightarrow> js_string" where
  "toString i = (if i < 0 then 0x2D # digits (nat (- i)) else digits (nat i))"

subsection \<open>\<^verbatim>\<open>Buffer.prototype.toString\<close>: UTF-8 decoding\<close>

text \<open>
  \<^verbatim>\<open>data.toString()\<close> decodes the chunk as UTF-8. Every maximal ill-formed part of the
  input, also a sequence cut off by the end of the chunk, becomes one U+FFFD; a byte that
  cannot continue the current sequence ends it and is read again as a first byte. Code
  points above U+FFFF become a surrogate pair.
\<close>

datatype utf8_state = Start | Cont nat nat byte byte

definition first_byte :: "byte \<Rightarrow> utf8_state \<times> nat list" where
  "first_byte b =
     (if b \<le> 0x7F then (Start, [unat b])
      else if 0xC2 \<le> b \<and> b \<le> 0xDF then (Cont (unat (b AND 0x1F)) 1 0x80 0xBF, [])
      else if 0xE0 \<le> b \<and> b \<le> 0xEF then
        (Cont (unat (b AND 0x0F)) 2 (if b = 0xE0 then 0xA0 else 0x80)
              (if b = 0xED then 0x9F else 0xBF), [])
      else if 0xF0 \<le> b \<and> b \<le> 0xF4 then
        (Cont (unat (b AND 0x07)) 3 (if b = 0xF0 then 0x90 else 0x80)
              (if b = 0xF4 then 0x8F else 0xBF), [])
      else (Start, [0xFFFD]))"

fun utf8_decode :: "utf8_state \<Rightarrow> buffer \<Rightarrow> nat list" where
  "utf8_decode Start [] = []"
| "utf8_decode (Cont cp need lo hi) [] = [0xFFFD]"
| "utf8_decode Start (b # bs) =
     (case first_byte b of (s, out) \<Rightarrow> out @ utf8_decode s bs)"
| "utf8_decode (Cont cp need lo hi) (b # bs) =
     (if lo \<le> b \<and> b \<le> hi then
        (let cp' = cp * 64 + unat (b AND 0x3F)
         in if need = 1 then cp' # utf8_decode Start bs
            else utf8_decode (Cont cp' (need - 1) 0x80 0xBF) bs)
      else 0xFFFD # (case first_byte b of (s, out) \<Rightarrow> out @ utf8_decode s bs))"

definition utf16_units :: "nat \<Rightarrow> js_string" where
  "utf16_units cp =
     (if cp < 0x10000 then [of_nat cp]
      else [0xD800 + of_nat ((cp - 0x10000) div 0x400),
            0xDC00 + of_nat ((cp - 0x10000) mod 0x400)])"

definition buffer_toString :: "buffer \<Rightarrow> js_string" where
  "buffer_toString data = concat (map utf16_units (utf8_decode Start data))"

section \<open>Prompt detection\<close>

text \<open>
  Both output handlers evaluate
  \<^verbatim>\<open>/\(y\/n\)|Do you want to continue\?|Can I|Should I|Allow|Trust|Proceed/i.test(text)\<close>.
  The expression has no \<^verbatim>\<open>g\<close> or \<^verbatim>\<open>y\<close> flag, so \<^verbatim>\<open>test\<close> keeps no position between
  calls: it is true when some alternative matches at some index of the text. With the
  \<^verbatim>\<open>i\<close> flag two code units match when their canonical forms agree. Every character of
  the pattern is ASCII, and the canonical form of a code unit of 128 or more is never
  ASCII, so only the folding of \<^verbatim>\<open>a\<close> to \<^verbatim>\<open>z\<close> matters here.
\<close>

definition canonicalize :: "code_unit \<Rightarrow> code_unit" where
  "canonicalize c = (if 0x61 \<le> c \<and> c \<le> 0x7A then c - 0x20 else c)"

fun matches_at :: "js_string \<Rightarrow> js_string \<Rightarrow> bool" where
  "matches_at [] cs = True"
| "matches_at (p # ps) [] = False"
| "matches_at (p # ps) (c # cs) = (canonicalize p = canonicalize c \<and> matches_at ps cs)"

fun any_at :: "js_string list \<Rightarrow> js_string \<Rightarrow> bool" where
  "any_at [] cs = False"
| "any_at (p # ps) cs = (matches_at p cs \<or> any_at ps cs)"

fun regex_test :: "js_string list \<Rightarrow> js_string \<Rightarrow> bool" where
  "regex_test alts [] = any_at alts []"
| "regex_test alts (c # cs) = (any_at alts (c # cs) \<or> regex_test alts cs)"

definition prompt_alternatives :: "js_string list" where
  "prompt_alternatives =
     [lit ''(y/n)'', lit ''Do you want to continue?'', lit ''Can I'', lit ''Should I'',
      lit ''Allow'', lit ''Trust'', lit ''Proceed'']"

definition isPrompt_test :: "js_string \<Rightarrow> bool" where
  "isPrompt_test text = regex_test prompt_alternatives text"

section \<open>The state of the main process\<close>

text \<open>
  \<^verbatim>\<open>sessions\<close> is a JavaScript \<^verbatim>\<open>Map\<close>: it iterates in insertion order, \<^verbatim>\<open>set\<close> on a key
  that is present replaces the value in place, \<^verbatim>\<open>delete\<close> of an absent key does nothing.
  A process object is identified by the number of process objects created before it.
\<close>

datatype backend = Pty | Spawn

datatype session_state = Ready

record session =
  process :: nat
  state :: session_state
  type :: backend

type_synonym registry = "(js_string \<times> session) list"

definition sessions_get :: "registry \<Rightarrow> js_string \<Rightarrow> session option" where
  "sessions_get reg sessionId = map_of reg sessionId"

definition sessions_set :: "js_string \<Rightarrow> session \<Rightarrow> registry \<Rightarrow> registry" where
  "sessions_set sessionId s reg = AList.update sessionId s reg"

definition sessions_delete :: "js_string \<Rightarrow> registry \<Rightarrow> registry" where
  "sessions_delete sessionId reg = AList.delete sessionId reg"

text \<open>
  \<^verbatim>\<open>mainWindow\<close> is unset, \<^verbatim>\<open>null\<close>, or a window that may have been destroyed. The test
  \<^verbatim>\<open>mainWindow && !mainWindow.isDestroyed()\<close> is \<open>window_live\<close>.
\<close>

datatype browser_window = Null | Window bool

fun window_live :: "browser_window \<Rightarrow> bool" where
  "window_live Null = False"
| "window_live (Window destroyed) = (\<not> destroyed)"

text \<open>
  The messages sent with \<^verbatim>\<open>mainWindow.webContents.send\<close>. A field that the object literal
  does not have is \<open>None\<close>: \<^verbatim>\<open>q-output\<close> carries \<^verbatim>\<open>sessionId\<close>, \<^verbatim>\<open>data\<close> and either
  \<^verbatim>\<open>isPrompt\<close> or \<^verbatim>\<open>isError\<close>; \<^verbatim>\<open>session-closed\<close> carries \<^verbatim>\<open>sessionId\<close>, \<^verbatim>\<open>code\<close>
  and, from the error handler, \<^verbatim>\<open>error\<close>. The value of \<^verbatim>\<open>code\<close> is whatever the handler's
  variable \<^verbatim>\<open>code\<close> holds: a number, \<^verbatim>\<open>null\<close>, or the exit event object
  \<^verbatim>\<open>{exitCode, signal}\<close> of the pseudo-terminal library.
\<close>

datatype js_code = Number int | JsNull | ExitObject int "int option"

fun number_or_null :: "int option \<Rightarrow> js_code" where
  "number_or_null None = JsNull"
| "number_or_null (Some n) = Number n"

datatype ipc_message =
    QOutput js_string js_string "bool option" "bool option"
  | SessionClosed js_string js_code "js_string option"

text \<open>
  The calls made on process objects: \<^verbatim>\<open>process.write\<close> (pseudo-terminal),
  \<^verbatim>\<open>process.stdin.write\<close> (pipe) and \<^verbatim>\<open>process.kill\<close> with its optional signal name.
\<close>

datatype process_call =
    Write nat js_string
  | StdinWrite nat js_string
  | Kill nat "js_string option"

record main =
  useNodePty :: bool
  mainWindow :: browser_window
  sessions :: registry
  webContents :: "ipc_message list"
  calls :: "process_call list"
  spawned :: nat

definition send :: "ipc_message \<Rightarrow> main \<Rightarrow> main" where
  "send msg m = m\<lparr>webContents := webContents m @ [msg]\<rparr>"

section \<open>Session creation and the handlers attached to a session\<close>

text \<open>
  \<^verbatim>\<open>create-session\<close>: the identifier is \<^verbatim>\<open>Date.now().toString()\<close>, computed before
  anything else. The backend is the pseudo-terminal when \<^verbatim>\<open>useNodePty && pty\<close> holds, the
  pipe otherwise. A spawn call that throws reaches the \<^verbatim>\<open>catch\<close> block, which logs to the
  console and throws the error again: the invocation fails with that error, before
  \<^verbatim>\<open>sessions.set\<close> and before any handler is attached. The arguments of the spawn call
  (path, working directory, environment) do not reach the registry or the window.
\<close>

datatype spawn_result = Spawned | SpawnThrows js_string

definition create_session :: "int \<Rightarrow> spawn_result \<Rightarrow> main \<Rightarrow> (js_string + js_string) \<times> main" where
  "create_session now r m =
     (let sessionId = toString now
      in case r of
           SpawnThrows message \<Rightarrow> (Inl message, m)
         | Spawned \<Rightarrow>
             (let qProcess = spawned m;
                  m1 = m\<lparr>spawned := Suc (spawned m)\<rparr>;
                  entry = \<lparr>process = qProcess, state = Ready,
                           type = (if useNodePty m then Pty else Spawn)\<rparr>
              in (Inr sessionId, m1\<lparr>sessions := sessions_set sessionId entry (sessions m1)\<rparr>)))"

text \<open>\<^verbatim>\<open>qProcess.onData\<close> of the pseudo-terminal backend.\<close>

definition pty_onData :: "js_string \<Rightarrow> js_string \<Rightarrow> main \<Rightarrow> main" where
  "pty_onData sessionId data m =
     (if \<not> window_live (mainWindow m) then m
      else send (QOutput sessionId data (Some (isPrompt_test data)) None) m)"

text \<open>
  \<^verbatim>\<open>qProcess.onExit\<close> of the pseudo-terminal backend. The library calls the listener with
  one argument, the object \<^verbatim>\<open>{exitCode, signal}\<close>. The listener is written as
  \<^verbatim>\<open>(code, signal) => ...\<close>: its \<^verbatim>\<open>code\<close> is that object and its \<^verbatim>\<open>signal\<close> is
  \<^verbatim>\<open>undefined\<close>. The test \<^verbatim>\<open>code !== 0 && code !== null\<close> then holds on every exit; its
  branch only writes to the console. \<open>exitCode\<close> and \<open>signal\<close> below are the two fields
  of the object the library passes.
\<close>

definition pty_onExit :: "js_string \<Rightarrow> int \<Rightarrow> int option \<Rightarrow> main \<Rightarrow> main" where
  "pty_onExit sessionId exitCode signal m =
     (let code = ExitObject exitCode signal;
          m1 = m\<lparr>sessions := sessions_delete sessionId (sessions m)\<rparr>
      in if window_live (mainWindow m1) then send (SessionClosed sessionId code None) m1
         else m1)"

text \<open>\<^verbatim>\<open>qProcess.stdout.on('data')\<close> of the pipe backend.\<close>

definition stdout_onData :: "js_string \<Rightarrow> buffer \<Rightarrow> main \<Rightarrow> main" where
  "stdout_onData sessionId data m =
     (if \<not> window_live (mainWindow m) then m
      else (let text = buffer_toString data
            in send (QOutput sessionId text (Some (isPrompt_test text)) None) m))"

text \<open>\<^verbatim>\<open>qProcess.stderr.on('data')\<close> of the pipe backend.\<close>

definition stderr_onData :: "js_string \<Rightarrow> buffer \<Rightarrow> main \<Rightarrow> main" where
  "stderr_onData sessionId data m =
     (if \<not> window_live (mainWindow m) then m
      else send (QOutput sessionId (buffer_toString data) None (Some True)) m)"

text \<open>
  \<^verbatim>\<open>qProcess.on('close')\<close> of the pipe backend; \<open>code\<close> is the exit code, or \<^verbatim>\<open>null\<close>
  (\<open>None\<close>) when a signal ended the process.
\<close>

definition spawn_onClose :: "js_string \<Rightarrow> int option \<Rightarrow> main \<Rightarrow> main" where
  "spawn_onClose sessionId code m =
     (let m1 = m\<lparr>sessions := sessions_delete sessionId (sessions m)\<rparr>
      in if window_live (mainWindow m1)
         then send (SessionClosed sessionId (number_or_null code) None) m1
         else m1)"

text \<open>\<^verbatim>\<open>qProcess.on('error')\<close> of the pipe backend; \<open>message\<close> is \<^verbatim>\<open>error.message\<close>.\<close>

definition spawn_onError :: "js_string \<Rightarrow> js_string \<Rightarrow> main \<Rightarrow> main" where
  "spawn_onError sessionId message m =
     (let m1 = m\<lparr>sessions := sessions_delete sessionId (sessions m)\<rparr>
      in if window_live (mainWindow m1)
         then send (SessionClosed sessionId (Number (- 1)) (Some message)) m1
         else m1)"

section \<open>Requests of the renderer\<close>

text \<open>
  \<^verbatim>\<open>send-to-q\<close>. Every registry entry holds a process object, so the test
  \<^verbatim>\<open>session && session.process\<close> is the test that the entry exists.

  A write call ends in one of three ways. It hands the data over (\<open>Written\<close>). It throws
  (\<open>WriteThrows\<close>), which the \<^verbatim>\<open>catch\<close> block turns into the result \<^verbatim>\<open>false\<close>. Or it
  returns and the data is lost (\<open>WriteFailsLater\<close>): a stream whose other end is gone, as
  after the child has exited, reports the failure by a later \<^verbatim>\<open>error\<close> event and not by
  throwing, so the \<^verbatim>\<open>try\<close> block has been left when it arrives. \<open>write p s\<close> tells how
  writing \<open>s\<close> to process \<open>p\<close> ends.
\<close>

datatype write_result = Written | WriteThrows | WriteFailsLater

definition send_to_q ::
  "(nat \<Rightarrow> js_string \<Rightarrow> write_result) \<Rightarrow> js_string \<Rightarrow> js_string \<Rightarrow> main
     \<Rightarrow> bool \<times> main" where
  "send_to_q write sessionId input m =
     (case sessions_get (sessions m) sessionId of
        None \<Rightarrow> (False, m)
      | Some session \<Rightarrow>
          (if type session = Pty then
             (let cleanInput = trim input
              in if write (process session) (cleanInput @ [0x0D]) = WriteThrows
                 then (False, m)
                 else (True, m\<lparr>calls := calls m @ [Write (process session) (cleanInput @ [0x0D])]\<rparr>))
           else
             (if write (process session) (input @ [0x0A]) = WriteThrows then (False, m)
              else (True, m\<lparr>calls := calls m @ [StdinWrite (process session) (input @ [0x0A])]\<rparr>))))"

text \<open>
  \<^verbatim>\<open>kill-session\<close>: \<^verbatim>\<open>session.process.kill()\<close> without a signal name, outside any
  \<^verbatim>\<open>try\<close> block, then \<^verbatim>\<open>sessions.delete\<close>. The handler relies on the call returning, and
  so does the model.
\<close>

definition kill_session :: "js_string \<Rightarrow> main \<Rightarrow> bool \<times> main" where
  "kill_session sessionId m =
     (case sessions_get (sessions m) sessionId of
        None \<Rightarrow> (False, m)
      | Some session \<Rightarrow>
          (True, m\<lparr>calls := calls m @ [Kill (process session) None],
                   sessions := sessions_delete sessionId (sessions m)\<rparr>))"

section \<open>Shutdown\<close>

text \<open>
  The three shutdown paths run the same loop, \<^verbatim>\<open>sessions.forEach\<close> with
  \<^verbatim>\<open>session.process.kill\<close> inside \<^verbatim>\<open>try\<close>, then \<^verbatim>\<open>sessions.clear()\<close>. The \<^verbatim>\<open>catch\<close> branch
  only writes to the console, so the loop goes on to the next session whether or not a
  kill call throws; the model records each call. The window's \<^verbatim>\<open>close\<close> handler and
  \<^verbatim>\<open>close-app\<close> pass \<^verbatim>\<open>'SIGTERM'\<close>, \<^verbatim>\<open>window-all-closed\<close> passes no signal name.
\<close>

fun forEach_kill :: "js_string option \<Rightarrow> registry \<Rightarrow> main \<Rightarrow> main" where
  "forEach_kill sig [] m = m"
| "forEach_kill sig ((sessionId, session) # rest) m =
     forEach_kill sig rest (m\<lparr>calls := calls m @ [Kill (process session) sig]\<rparr>)"

definition window_onClose :: "main \<Rightarrow> main" where
  "window_onClose m =
     (let m1 = forEach_kill (Some (lit ''SIGTERM'')) (sessions m) m;
          m2 = m1\<lparr>sessions := []\<rparr>
      in m2\<lparr>mainWindow := Null\<rparr>)"

definition close_app :: "main \<Rightarrow> main" where
  "close_app m =
     (let m1 = forEach_kill (Some (lit ''SIGTERM'')) (sessions m) m;
          m2 = m1\<lparr>sessions := []\<rparr>
      in if window_live (mainWindow m2) then m2\<lparr>mainWindow := Null\<rparr> else m2)"

definition window_all_closed :: "main \<Rightarrow> main" where
  "window_all_closed m =
     (let m1 = forEach_kill None (sessions m) m
      in m1\<lparr>sessions := []\<rparr>)"

section \<open>The executable locator \<^verbatim>\<open>findQCliPath\<close>\<close>

text \<open>
  What the function reads from its surroundings: \<^verbatim>\<open>process.platform\<close>, the output of
  \<^verbatim>\<open>execSync('which q')\<close> and \<^verbatim>\<open>execSync('where q')\<close> (\<open>None\<close> when the call throws, which
  the \<^verbatim>\<open>catch\<close> blocks swallow), \<^verbatim>\<open>fs.existsSync\<close>, \<^verbatim>\<open>os.homedir()\<close> and two environment
  variables, which are \<^verbatim>\<open>undefined\<close> when unset.
\<close>

datatype platform = Darwin | Linux | Win32 | OtherPlatform

record locator_env =
  platform :: platform
  which_q :: "js_string option"
  where_q :: "js_string option"
  existsSync :: "js_string \<Rightarrow> bool"
  homedir :: js_string
  PROGRAMFILES :: "js_string option"
  USERPROFILE :: "js_string option"

text \<open>String concatenation prints \<^verbatim>\<open>undefined\<close> as the word itself.\<close>

definition env_string :: "js_string option \<Rightarrow> js_string" where
  "env_string v = (case v of None \<Rightarrow> lit ''undefined'' | Some s \<Rightarrow> s)"

definition backslash :: js_string where
  "backslash = [0x5C]"

definition which_lookup :: "locator_env \<Rightarrow> js_string option" where
  "which_lookup e =
     (case which_q e of
        None \<Rightarrow> None
      | Some out \<Rightarrow>
          (let result = trim out
           in if result \<noteq> [] \<and> existsSync e result then Some result else None))"

text \<open>\<^verbatim>\<open>.trim().split('\n')[0]\<close> is the trimmed output up to its first line feed.\<close>

definition where_lookup :: "locator_env \<Rightarrow> js_string option" where
  "where_lookup e =
     (if platform e = Win32 then
        (case where_q e of
           None \<Rightarrow> None
         | Some out \<Rightarrow>
             (let result = takeWhile (\<lambda>c. c \<noteq> 0x0A) (trim out)
              in if result \<noteq> [] \<and> existsSync e result then Some result else None))
      else None)"

definition searchPaths :: "locator_env \<Rightarrow> js_string list" where
  "searchPaths e =
     (if platform e = Darwin \<or> platform e = Linux then
        [lit ''/usr/local/bin/q'',
         lit ''/opt/homebrew/bin/q'',
         homedir e @ lit ''/bin/q'',
         homedir e @ lit ''/.local/bin/q'',
         lit ''/usr/bin/q'']
      else if platform e = Win32 then
        [lit ''q.exe'',
         env_string (PROGRAMFILES e) @ backslash @ lit ''Amazon'' @ backslash
           @ lit ''AWSCLIV2'' @ backslash @ lit ''q.exe'',
         env_string (USERPROFILE e) @ backslash @ lit ''AppData'' @ backslash
           @ lit ''Local'' @ backslash @ lit ''Programs'' @ backslash @ lit ''q''
           @ backslash @ lit ''q.exe'',
         env_string (PROGRAMFILES e) @ backslash @ lit ''q'' @ backslash @ lit ''q.exe'',
         lit ''C:'' @ backslash @ lit ''Program Files'' @ backslash @ lit ''Amazon''
           @ backslash @ lit ''AWSCLIV2'' @ backslash @ lit ''q.exe'']
      else [])"

fun first_existing :: "(js_string \<Rightarrow> bool) \<Rightarrow> js_string list \<Rightarrow> js_string option" where
  "first_existing ex [] = None"
| "first_existing ex (testPath # rest) =
     (if ex testPath then Some testPath else first_existing ex rest)"

definition findQCliPath :: "locator_env \<Rightarrow> js_string" where
  "findQCliPath e =
     (case which_lookup e of
        Some result \<Rightarrow> result
      | None \<Rightarrow>
          (case where_lookup e of
             Some result \<Rightarrow> result
           | None \<Rightarrow>
               (case first_existing (existsSync e) (searchPaths e) of
                  Some testPath \<Rightarrow> testPath
                | None \<Rightarrow> lit ''q'')))"

section \<open>Runs of the main process\<close>

text \<open>
  The main process starts with no window and an empty registry and then handles one event
  at a time. \<open>CreateWindow\<close> is \<^verbatim>\<open>createWindow\<close> assigning a new window; \<open>WindowDestroyed\<close>
  is the window object being destroyed while \<^verbatim>\<open>mainWindow\<close> still refers to it.
\<close>

definition init :: "bool \<Rightarrow> main" where
  "init nodePty =
     \<lparr>useNodePty = nodePty, mainWindow = Null, sessions = [], webContents = [],
      calls = [], spawned = 0\<rparr>"

datatype event =
    CreateWindow
  | WindowDestroyed
  | CreateSession int spawn_result
  | PtyData js_string js_string
  | PtyExit js_string int "int option"
  | StdoutData js_string buffer
  | StderrData js_string buffer
  | SpawnClose js_string "int option"
  | SpawnError js_string js_string
  | SendToQ js_string js_string
  | KillSession js_string
  | WindowClose
  | CloseApp
  | WindowAllClosed

fun step :: "(nat \<Rightarrow> js_string \<Rightarrow> write_result) \<Rightarrow> event \<Rightarrow> main \<Rightarrow> main" where
  "step wt CreateWindow m = m\<lparr>mainWindow := Window False\<rparr>"
| "step wt WindowDestroyed m =
     (case mainWindow m of Null \<Rightarrow> m | Window d \<Rightarrow> m\<lparr>mainWindow := Window True\<rparr>)"
| "step wt (CreateSession now r) m = snd (create_session now r m)"
| "step wt (PtyData sessionId data) m = pty_onData sessionId data m"
| "step wt (PtyExit sessionId exitCode signal) m = pty_onExit sessionId exitCode signal m"
| "step wt (StdoutData sessionId data) m = stdout_onData sessionId data m"
| "step wt (StderrData sessionId data) m = stderr_onData sessionId data m"
| "step wt (SpawnClose sessionId code) m = spawn_onClose sessionId code m"
| "step wt (SpawnError sessionId message) m = spawn_onError sessionId message m"
| "step wt (SendToQ sessionId input) m = snd (send_to_q wt sessionId input m)"
| "step wt (KillSession sessionId) m = snd (kill_session sessionId m)"
| "step wt WindowClose m = window_onClose m"
| "step wt CloseApp m = close_app m"
| "step wt WindowAllClosed m = window_all_closed m"

fun run :: "(nat \<Rightarrow> js_string \<Rightarrow> write_result) \<Rightarrow> event list \<Rightarrow> main \<Rightarrow> main" where
  "run wt [] m = m"
| "run wt (ev # evs) m = run wt evs (step wt ev m)"

section \<open>Auxiliary notions for the properties\<close>

subsection \<open>The bytes of a string\<close>

text \<open>
  To compare the text of a message with the bytes of the chunk it came from, the text is
  written back as UTF-8, as \<^verbatim>\<open>Buffer.from(text)\<close> does: a surrogate pair is one code point
  of four bytes, a surrogate on its own is written as U+FFFD. A string is well formed when
  every surrogate in it belongs to a pair.
\<close>

definition is_surrogate :: "code_unit \<Rightarrow> bool" where
  "is_surrogate c = (0xD800 \<le> c \<and> c \<le> 0xDFFF)"

definition surrogate_pair :: "code_unit \<Rightarrow> code_unit \<Rightarrow> bool" where
  "surrogate_pair c d = (0xD800 \<le> c \<and> c \<le> 0xDBFF \<and> 0xDC00 \<le> d \<and> d \<le> 0xDFFF)"

fun code_points :: "js_string \<Rightarrow> nat list" where
  "code_points [] = []"
| "code_points [c] = [if is_surrogate c then 0xFFFD else unat c]"
| "code_points (c # d # cs) =
     (if surrogate_pair c d
      then (0x10000 + (unat c - 0xD800) * 0x400 + (unat d - 0xDC00)) # code_points cs
      else (if is_surrogate c then 0xFFFD else unat c) # code_points (d # cs))"

definition utf8_of_code_point :: "nat \<Rightarrow> buffer" where
  "utf8_of_code_point cp =
     (if cp < 0x80 then [of_nat cp]
      else if cp < 0x800 then [of_nat (0xC0 + cp div 64), of_nat (0x80 + cp mod 64)]
      else if cp < 0x10000 then
        [of_nat (0xE0 + cp div 64 div 64), of_nat (0x80 + cp div 64 mod 64),
         of_nat (0x80 + cp mod 64)]
      else
        [of_nat (0xF0 + cp div 64 div 64 div 64), of_nat (0x80 + cp div 64 div 64 mod 64),
         of_nat (0x80 + cp div 64 mod 64), of_nat (0x80 + cp mod 64)])"

definition Buffer_from :: "js_string \<Rightarrow> buffer" where
  "Buffer_from text = concat (map utf8_of_code_point (code_points text))"

fun well_formed :: "js_string \<Rightarrow> bool" where
  "well_formed [] = True"
| "well_formed [c] = (\<not> is_surrogate c)"
| "well_formed (c # d # cs) =
     (if surrogate_pair c d then well_formed cs
      else \<not> is_surrogate c \<and> well_formed (d # cs))"

definition scalar :: "nat \<Rightarrow> bool" where
  "scalar cp = (cp < 0x110000 \<and> \<not> (0xD800 \<le> cp \<and> cp \<le> 0xDFFF))"

subsection \<open>Reading a decimal numeral back\<close>

fun digits_value :: "js_string \<Rightarrow> nat" where
  "digits_value [] = 0"
| "digits_value (c # cs) = unat (c - 0x30) * 10 ^ length cs + digits_value cs"

subsection \<open>The registry invariant\<close>

text \<open>
  No identifier and no process object occurs in two entries, and every process object in
  the registry has been created.
\<close>

definition registry_inv :: "main \<Rightarrow> bool" where
  "registry_inv m =
     (distinct (map fst (sessions m))
      \<and> distinct (map (\<lambda>(sessionId, session). process session) (sessions m))
      \<and> list_all (\<lambda>(sessionId, session). process session < spawned m) (sessions m))"

subsection \<open>The locator as the specification words it\<close>

text \<open>
  The specification's \<open>locate\<close>, from what the lookup commands print and not from what
  \<^verbatim>\<open>findQCliPath\<close> makes of it. The path a lookup command prints is the first line of its
  output, without the line end (line feed, or carriage return and line feed) and without
  surrounding white space. The native lookup is \<^verbatim>\<open>which\<close>, then \<^verbatim>\<open>where\<close> on Windows; its
  result is accepted only when the path printed exists. \<open>locate\<close> is the native lookup's
  result, otherwise the first well-known path that exists, otherwise the bare command
  name.
\<close>

definition printed_path :: "js_string \<Rightarrow> js_string" where
  "printed_path out = trim (takeWhile (\<lambda>c. c \<noteq> 0x0A) (trim out))"

definition accepted_path :: "locator_env \<Rightarrow> js_string option \<Rightarrow> js_string option" where
  "accepted_path e output =
     (case output of
        None \<Rightarrow> None
      | Some out \<Rightarrow>
          (if printed_path out \<noteq> [] \<and> existsSync e (printed_path out)
           then Some (printed_path out) else None))"

definition native_lookup :: "locator_env \<Rightarrow> js_string option" where
  "native_lookup e =
     (case accepted_path e (which_q e) of
        Some p \<Rightarrow> Some p
      | None \<Rightarrow> (if platform e = Win32 then accepted_path e (where_q e) else None))"

definition locate_spec :: "locator_env \<Rightarrow> js_string" where
  "locate_spec e =
     (case native_lookup e of
        Some p \<Rightarrow> p
      | None \<Rightarrow> (case List.find (existsSync e) (searchPaths e) of
                   Some p \<Rightarrow> p
                 | None \<Rightarrow> lit ''q''))"

subsection \<open>Example states and environments\<close>

definition never_throws :: "nat \<Rightarrow> js_string \<Rightarrow> write_result" where
  "never_throws p s = Written"

text \<open>Every child has exited: a write returns and fails afterwards.\<close>

definition child_gone :: "nat \<Rightarrow> js_string \<Rightarrow> write_result" where
  "child_gone p s = WriteFailsLater"

text \<open>A window and one session, created at clock reading 1700000000000, on each backend.\<close>

definition pty_example :: main where
  "pty_example =
     run never_throws [CreateWindow, CreateSession 1700000000000 Spawned] (init True)"

definition spawn_example :: main where
  "spawn_example =
     run never_throws [CreateWindow, CreateSession 1700000000000 Spawned] (init False)"

text \<open>
  A Windows machine without \<^verbatim>\<open>which\<close>, where \<^verbatim>\<open>where q\<close> finds two files and prints one per
  line, each line ended by carriage return and line feed. Both files exist; none of the
  well-known paths does.
\<close>

definition tools_q :: js_string where
  "tools_q = lit ''D:'' @ backslash @ lit ''tools'' @ backslash @ lit ''q.exe''"

definition other_q :: js_string where
  "other_q = lit ''D:'' @ backslash @ lit ''other'' @ backslash @ lit ''q.cmd''"

definition windows_two_matches :: locator_env where
  "windows_two_matches =
     \<lparr>platform = Win32, which_q = None,
      where_q = Some (tools_q @ [0x0D, 0x0A] @ other_q @ [0x0D, 0x0A]),
      existsSync = (\<lambda>p. p = tools_q \<or> p = other_q),
      homedir = lit ''C:'' @ backslash @ lit ''Users'' @ backslash @ lit ''u'',
      PROGRAMFILES = Some (lit ''C:'' @ backslash @ lit ''Program Files''),
      USERPROFILE = Some (lit ''C:'' @ backslash @ lit ''Users'' @ backslash @ lit ''u'')\<rparr>"

section \<open>Basic facts\<close>

subsection \<open>Evaluating the examples\<close>

lemmas digits_eval =
  digits.simps [of "numeral k" for k] digits.simps [of 0] digits.simps [of "Suc 0"]

lemma toString_example: "toString 1700000000000 = lit ''1700000000000''"
  by (simp add: toString_def digits_eval lit_def)

lemma pty_example_eq:
  "pty_example = \<lparr>useNodePty = True, mainWindow = Window False,
      sessions = [(lit ''1700000000000'', \<lparr>process = 0, state = Ready, type = Pty\<rparr>)],
      webContents = [], calls = [], spawned = 1\<rparr>"
  by (simp add: pty_example_def init_def create_session_def sessions_set_def
      toString_example Let_def)

lemma spawn_example_eq:
  "spawn_example = \<lparr>useNodePty = False, mainWindow = Window False,
      sessions = [(lit ''1700000000000'', \<lparr>process = 0, state = Ready, type = Spawn\<rparr>)],
      webContents = [], calls = [], spawned = 1\<rparr>"
  by (simp add: spawn_example_def init_def create_session_def sessions_set_def
      toString_example Let_def)

lemma pty_example_get:
  "sessions_get (sessions pty_example) (lit ''1700000000000'')
     = Some \<lparr>process = 0, state = Ready, type = Pty\<rparr>"
  by (simp add: pty_example_eq sessions_get_def)

lemma spawn_example_get:
  "sessions_get (sessions spawn_example) (lit ''1700000000000'')
     = Some \<lparr>process = 0, state = Ready, type = Spawn\<rparr>"
  by (simp add: spawn_example_eq sessions_get_def)

subsection \<open>The registry\<close>

lemma get_delete: "sessions_get (sessions_delete sessionId reg) sessionId = None"
  by (simp add: sessions_get_def sessions_delete_def delete_conv)

lemma delete_absent:
  "sessions_get reg sessionId = None \<Longrightarrow> sessions_delete sessionId reg = reg"
  unfolding sessions_get_def sessions_delete_def
  by (simp add: map_of_eq_None_iff)

subsection \<open>What the handlers send\<close>

lemma pty_onData_sent:
  "webContents (pty_onData sessionId data m) =
     webContents m @ (if window_live (mainWindow m)
                      then [QOutput sessionId data (Some (isPrompt_test data)) None] else [])"
  by (simp add: pty_onData_def send_def)

lemma stdout_onData_sent:
  "webContents (stdout_onData sessionId data m) =
     webContents m @ (if window_live (mainWindow m)
        then [QOutput sessionId (buffer_toString data)
                (Some (isPrompt_test (buffer_toString data))) None]
        else [])"
  by (simp add: stdout_onData_def send_def Let_def)

lemma stderr_onData_sent:
  "webContents (stderr_onData sessionId data m) =
     webContents m @ (if window_live (mainWindow m)
        then [QOutput sessionId (buffer_toString data) None (Some True)] else [])"
  by (simp add: stderr_onData_def send_def)

lemma exit_sent:
  "webContents (pty_onExit sessionId exitCode signal m) =
     webContents m @ (if window_live (mainWindow m)
                      then [SessionClosed sessionId (ExitObject exitCode signal) None] else [])"
  "webContents (spawn_onClose sessionId code m) =
     webContents m @ (if window_live (mainWindow m)
                      then [SessionClosed sessionId (number_or_null code) None] else [])"
  by (simp_all add: pty_onExit_def spawn_onClose_def send_def Let_def)

lemma exit_removed:
  "sessions_get (sessions (pty_onExit sessionId exitCode signal m)) sessionId = None"
  "sessions_get (sessions (spawn_onClose sessionId code m)) sessionId = None"
  by (simp_all add: pty_onExit_def spawn_onClose_def send_def Let_def get_delete)

lemma error_sent:
  "webContents (spawn_onError sessionId message m) =
     webContents m @ (if window_live (mainWindow m)
                      then [SessionClosed sessionId (Number (- 1)) (Some message)] else [])"
  by (simp add: spawn_onError_def send_def Let_def)

lemma error_removed:
  "sessions_get (sessions (spawn_onError sessionId message m)) sessionId = None"
  by (simp add: spawn_onError_def send_def Let_def get_delete)

lemma data_keeps_window:
  "mainWindow (pty_onData sessionId text m) = mainWindow m"
  "mainWindow (stdout_onData sessionId data m) = mainWindow m"
  "mainWindow (stderr_onData sessionId data m) = mainWindow m"
  by (simp_all add: pty_onData_def stdout_onData_def stderr_onData_def send_def Let_def)

subsection \<open>The shutdown loop\<close>

lemma forEach_kill_calls:
  "calls (forEach_kill sig reg m) =
     calls m @ map (\<lambda>(sessionId, session). Kill (process session) sig) reg"
  by (induction sig reg m rule: forEach_kill.induct) simp_all

lemma forEach_kill_sessions: "sessions (forEach_kill sig reg m) = sessions m"
  by (induction sig reg m rule: forEach_kill.induct) simp_all

lemma forEach_kill_mainWindow: "mainWindow (forEach_kill sig reg m) = mainWindow m"
  by (induction sig reg m rule: forEach_kill.induct) simp_all

lemma forEach_kill_webContents: "webContents (forEach_kill sig reg m) = webContents m"
  by (induction sig reg m rule: forEach_kill.induct) simp_all

lemma forEach_kill_spawned: "spawned (forEach_kill sig reg m) = spawned m"
  by (induction sig reg m rule: forEach_kill.induct) simp_all

lemma shutdown_calls:
  "calls (window_onClose m) =
     calls m @ map (\<lambda>(sessionId, session). Kill (process session) (Some (lit ''SIGTERM'')))
                 (sessions m)"
  "calls (close_app m) =
     calls m @ map (\<lambda>(sessionId, session). Kill (process session) (Some (lit ''SIGTERM'')))
                 (sessions m)"
  "calls (window_all_closed m) =
     calls m @ map (\<lambda>(sessionId, session). Kill (process session) None) (sessions m)"
  by (simp_all add: window_onClose_def close_app_def window_all_closed_def Let_def
      forEach_kill_calls)

lemma shutdown_sessions:
  "sessions (window_onClose m) = []"
  "sessions (close_app m) = []"
  "sessions (window_all_closed m) = []"
  by (simp_all add: window_onClose_def close_app_def window_all_closed_def Let_def)

subsection \<open>Case folding in the prompt expression\<close>

lemma canonicalize_idem: "canonicalize (canonicalize c) = canonicalize c"
  unfolding canonicalize_def
  by (auto simp: word_le_nat_alt unat_sub)

lemma matches_at_canon: "matches_at p (map canonicalize cs) = matches_at p cs"
  by (induction p cs rule: matches_at.induct) (simp_all add: canonicalize_idem)

lemma any_at_canon: "any_at alts (map canonicalize cs) = any_at alts cs"
  by (induction alts) (simp_all add: matches_at_canon)

lemma regex_test_canon: "regex_test alts (map canonicalize cs) = regex_test alts cs"
proof (induction cs)
  case Nil
  show ?case using any_at_canon [of alts "[]"] by simp
next
  case (Cons c cs)
  show ?case using any_at_canon [of alts "c # cs"] Cons by simp
qed

lemma prompt_vectors:
  "isPrompt_test (lit ''Do you want to continue? (y/n)'') = True"
  "isPrompt_test (lit ''Listing files in /tmp'') = False"
  "isPrompt_test (lit ''Trust this MCP server?'') = True"
  "isPrompt_test (lit ''TRUST THIS MCP SERVER?'') = True"
  "isPrompt_test (lit ''trust this mcp server?'') = True"
  by code_simp+

lemma prompt_split:
  "isPrompt_test (lit ''Tru'') = False"
  "isPrompt_test (lit ''st this MCP server?'') = False"
  by code_simp+

section \<open>Properties of the session layer\<close>

text \<open>
  C4. Killing a live session twice in a row: the first \<^verbatim>\<open>kill-session\<close> request answers
  \<^verbatim>\<open>true\<close>, the second answers \<^verbatim>\<open>false\<close> and changes nothing, because the first removed
  the entry; deleting the identifier from the registry once more leaves the registry as
  it is.
\<close>

theorem kill_session_twice:
  "sessions_get (sessions m) sessionId = Some s \<Longrightarrow>
     fst (kill_session sessionId m) = True
     \<and> fst (kill_session sessionId (snd (kill_session sessionId m))) = False
     \<and> snd (kill_session sessionId (snd (kill_session sessionId m)))
         = snd (kill_session sessionId m)
     \<and> sessions_get (sessions (snd (kill_session sessionId m))) sessionId = None
     \<and> sessions_delete sessionId (sessions (snd (kill_session sessionId m)))
         = sessions (snd (kill_session sessionId m))"
  by (simp add: kill_session_def get_delete delete_absent)

theorem kill_session_twice_witness:
  "sessions_get (sessions pty_example) (lit ''1700000000000'')
     = Some \<lparr>process = 0, state = Ready, type = Pty\<rparr>
   \<and> fst (kill_session (lit ''1700000000000'') pty_example) = True
   \<and> fst (kill_session (lit ''1700000000000'')
            (snd (kill_session (lit ''1700000000000'') pty_example))) = False"
  using pty_example_get kill_session_twice [OF pty_example_get] by simp

text \<open>
  C9. Each of the three shutdown paths calls \<^verbatim>\<open>kill\<close> once on the process of every
  registry entry, in registry order, and leaves the registry empty; a shutdown that
  follows another one finds the registry empty and makes no further call.
\<close>

theorem shutdown_converges:
  "calls (window_onClose m) =
     calls m @ map (\<lambda>(sessionId, session). Kill (process session) (Some (lit ''SIGTERM'')))
                 (sessions m)
   \<and> calls (close_app m) =
     calls m @ map (\<lambda>(sessionId, session). Kill (process session) (Some (lit ''SIGTERM'')))
                 (sessions m)
   \<and> calls (window_all_closed m) =
     calls m @ map (\<lambda>(sessionId, session). Kill (process session) None) (sessions m)
   \<and> length (calls (close_app m)) = length (calls m) + length (sessions m)
   \<and> sessions (window_onClose m) = []
   \<and> sessions (close_app m) = []
   \<and> sessions (window_all_closed m) = []
   \<and> calls (window_onClose (window_onClose m)) = calls (window_onClose m)
   \<and> calls (close_app (close_app m)) = calls (close_app m)
   \<and> calls (window_all_closed (window_all_closed m)) = calls (window_all_closed m)
   \<and> calls (window_all_closed (window_onClose (close_app m))) = calls (close_app m)
   \<and> sessions (close_app (close_app m)) = []"
  by (simp add: shutdown_calls shutdown_sessions)

text \<open>
  C5. The prompt classifier on the three test vectors of the specification; it does not
  distinguish upper and lower case; the flag of a message is the classifier's value on
  that chunk alone, whatever the state; and a prompt phrase split over two chunks is
  flagged in neither.
\<close>

theorem prompt_classifier:
  "isPrompt_test (lit ''Do you want to continue? (y/n)'') = True
   \<and> isPrompt_test (lit ''Listing files in /tmp'') = False
   \<and> isPrompt_test (lit ''Trust this MCP server?'') = True
   \<and> isPrompt_test (lit ''TRUST THIS MCP SERVER?'') = True
   \<and> isPrompt_test (lit ''trust this mcp server?'') = True
   \<and> isPrompt_test (map canonicalize text) = isPrompt_test text
   \<and> webContents (pty_onData sessionId text m) =
       webContents m @ (if window_live (mainWindow m)
                        then [QOutput sessionId text (Some (isPrompt_test text)) None] else [])
   \<and> webContents (stdout_onData sessionId data m) =
       webContents m @ (if window_live (mainWindow m)
          then [QOutput sessionId (buffer_toString data)
                  (Some (isPrompt_test (buffer_toString data))) None]
          else [])
   \<and> webContents (pty_onData (lit ''1700000000000'') (lit ''st this MCP server?'')
                    (pty_onData (lit ''1700000000000'') (lit ''Tru'') pty_example)) =
       [QOutput (lit ''1700000000000'') (lit ''Tru'') (Some False) None,
        QOutput (lit ''1700000000000'') (lit ''st this MCP server?'') (Some False) None]"
proof -
  have fold: "isPrompt_test (map canonicalize text) = isPrompt_test text"
    by (simp add: isPrompt_test_def regex_test_canon)
  show ?thesis
    by (simp add: prompt_vectors prompt_split fold pty_onData_sent stdout_onData_sent
        data_keeps_window pty_example_eq)
qed

lemma send_to_q_cases:
  "(sessions_get (sessions m) sessionId = None \<longrightarrow>
      send_to_q wr sessionId input m = (False, m))
   \<and> (sessions_get (sessions m) sessionId = Some s \<and> type s = Pty
        \<and> wr (process s) (trim input @ [0x0D]) = WriteThrows \<longrightarrow>
      send_to_q wr sessionId input m = (False, m))
   \<and> (sessions_get (sessions m) sessionId = Some s \<and> type s = Spawn
        \<and> wr (process s) (input @ [0x0A]) = WriteThrows \<longrightarrow>
      send_to_q wr sessionId input m = (False, m))
   \<and> (sessions_get (sessions m) sessionId = Some s \<and> type s = Pty
        \<and> wr (process s) (trim input @ [0x0D]) \<noteq> WriteThrows \<longrightarrow>
      send_to_q wr sessionId input m =
        (True, m\<lparr>calls := calls m @ [Write (process s) (trim input @ [0x0D])]\<rparr>))
   \<and> (sessions_get (sessions m) sessionId = Some s \<and> type s = Spawn
        \<and> wr (process s) (input @ [0x0A]) \<noteq> WriteThrows \<longrightarrow>
      send_to_q wr sessionId input m =
        (True, m\<lparr>calls := calls m @ [StdinWrite (process s) (input @ [0x0A])]\<rparr>))"
  by (simp add: send_to_q_def Let_def)

text \<open>
  C6 asks for \<^verbatim>\<open>false\<close> whenever the underlying write fails. The handler answers
  \<^verbatim>\<open>false\<close> only when the write call throws. Here the session is registered on the pipe
  backend and its child has exited: the write call returns, the write fails afterwards,
  and the handler has answered \<^verbatim>\<open>true\<close>.
\<close>

theorem send_to_q_write_fails_later:
  "sessions_get (sessions spawn_example) (lit ''1700000000000'')
     = Some \<lparr>process = 0, state = Ready, type = Spawn\<rparr>
   \<and> child_gone 0 (lit ''ls'' @ [0x0A]) = WriteFailsLater
   \<and> send_to_q child_gone (lit ''1700000000000'') (lit ''ls'') spawn_example
       = (True, spawn_example\<lparr>calls := [StdinWrite 0 (lit ''ls'' @ [0x0A])]\<rparr>)"
proof -
  have c: "calls spawn_example = []"
    by (simp add: spawn_example_eq)
  show ?thesis
    by (simp add: send_to_q_def spawn_example_get child_gone_def c)
qed

text \<open>
  C10. A chunk from the pipe backend's standard error is sent, while a window is live, as
  one message with \<^verbatim>\<open>isError\<close> true and no \<^verbatim>\<open>isPrompt\<close> field: the classifier is not
  consulted. Messages for pseudo-terminal chunks and for pipe standard output carry an
  \<^verbatim>\<open>isPrompt\<close> field and no \<^verbatim>\<open>isError\<close> field.
\<close>

theorem stderr_isError:
  "webContents (stderr_onData sessionId data m) =
     webContents m @ (if window_live (mainWindow m)
        then [QOutput sessionId (buffer_toString data) None (Some True)] else [])
   \<and> webContents (stdout_onData sessionId data m) =
     webContents m @ (if window_live (mainWindow m)
        then [QOutput sessionId (buffer_toString data)
                (Some (isPrompt_test (buffer_toString data))) None]
        else [])
   \<and> webContents (pty_onData sessionId text m) =
     webContents m @ (if window_live (mainWindow m)
        then [QOutput sessionId text (Some (isPrompt_test text)) None] else [])
   \<and> webContents (stderr_onData (lit ''1700000000000'')
                    (map of_char ''Trust this MCP server?'') spawn_example) =
       [QOutput (lit ''1700000000000'') (lit ''Trust this MCP server?'') None (Some True)]"
proof -
  have "buffer_toString (map of_char ''Trust this MCP server?'')
          = lit ''Trust this MCP server?''"
    by (simp add: buffer_toString_def first_byte_def utf16_units_def lit_def)
  then show ?thesis
    by (simp add: stderr_onData_sent stdout_onData_sent pty_onData_sent spawn_example_eq)
qed

text \<open>
  C2, as the code has it. When the adapter reports exit (\<^verbatim>\<open>onExit\<close> of the pseudo-terminal,
  \<^verbatim>\<open>close\<close> of the pipe), the session id is no longer in the registry, and exactly one
  \<^verbatim>\<open>session-closed\<close> message with that id is sent if a live window exists; with no
  window, or a destroyed one, nothing is sent. On the pipe backend the message carries
  the reported exit code.
\<close>

theorem exit_removes_and_notifies:
  "sessions_get (sessions (pty_onExit sessionId exitCode signal m)) sessionId = None
   \<and> (\<exists>code. webContents (pty_onExit sessionId exitCode signal m) =
         webContents m @ (if window_live (mainWindow m)
                          then [SessionClosed sessionId code None] else []))
   \<and> sessions_get (sessions (spawn_onClose sessionId code m)) sessionId = None
   \<and> webContents (spawn_onClose sessionId code m) =
       webContents m @ (if window_live (mainWindow m)
                        then [SessionClosed sessionId (number_or_null code) None] else [])"
  by (simp add: exit_sent exit_removed)

text \<open>
  C2 as stated fails: the window is closed, which kills the session, and the process then
  exits with code 0; likewise when the window has been destroyed and the process exits
  with code 1. In both runs no \<^verbatim>\<open>session-closed\<close> message is sent.
\<close>

theorem exit_notification_dropped:
  "webContents (run never_throws
      [WindowClose, PtyExit (lit ''1700000000000'') 0 None] pty_example) = []
   \<and> webContents (run never_throws
      [WindowDestroyed, SpawnClose (lit ''1700000000000'') (Some 1)] spawn_example) = []"
  by (simp add: exit_sent window_onClose_def Let_def forEach_kill_mainWindow
      forEach_kill_webContents pty_example_eq spawn_example_eq)

text \<open>
  C8, as the code has it. A spawn call that throws makes \<^verbatim>\<open>create-session\<close> fail with that
  error: the registry and the messages sent are unchanged. An \<^verbatim>\<open>error\<close> event of the pipe
  backend's process removes the session id from the registry and, if a live window
  exists, sends exactly one \<^verbatim>\<open>session-closed\<close> message with the id, code \<open>-1\<close> and the
  error message; with no live window it sends nothing.
\<close>

theorem spawn_failure_paths:
  "create_session now (SpawnThrows message) m = (Inl message, m)
   \<and> sessions_get (sessions (spawn_onError sessionId message m)) sessionId = None
   \<and> webContents (spawn_onError sessionId message m) =
       webContents m @ (if window_live (mainWindow m)
                        then [SessionClosed sessionId (Number (- 1)) (Some message)] else [])"
  by (simp add: create_session_def error_sent error_removed)

text \<open>
  C8 as stated fails: with a live window, a pseudo-terminal spawn that throws sends no
  \<^verbatim>\<open>session-closed\<close> message; the failure reaches the caller as the thrown error only.
\<close>

theorem spawn_throw_sends_nothing:
  "window_live (mainWindow (run never_throws [CreateWindow] (init True)))
   \<and> fst (create_session 1700000000000 (SpawnThrows (lit ''forkpty(3) failed.''))
            (run never_throws [CreateWindow] (init True)))
       = Inl (lit ''forkpty(3) failed.'')
   \<and> webContents (snd (create_session 1700000000000 (SpawnThrows (lit ''forkpty(3) failed.''))
                         (run never_throws [CreateWindow] (init True)))) = []"
  by (simp add: create_session_def init_def)

subsection \<open>The locator\<close>

lemma first_existing_find: "first_existing ex ps = List.find ex ps"
  by (induction ps) simp_all

lemma which_lookup_exists: "which_lookup e = Some p \<Longrightarrow> p \<noteq> [] \<and> existsSync e p"
  by (auto simp: which_lookup_def Let_def split: option.splits if_splits)

lemma where_lookup_exists: "where_lookup e = Some p \<Longrightarrow> p \<noteq> [] \<and> existsSync e p"
  by (auto simp: where_lookup_def Let_def split: option.splits if_splits)

lemma searchPaths_nonempty: "[] \<notin> set (searchPaths e)"
  by (simp add: searchPaths_def lit_def backslash_def)

lemma find_member: "List.find P xs = Some x \<Longrightarrow> x \<in> set xs \<and> P x"
  by (induction xs) (auto split: if_splits)

lemma findQCliPath_nonempty: "findQCliPath e \<noteq> []"
proof (cases "which_lookup e")
  case (Some p)
  then show ?thesis using which_lookup_exists [of e p] by (simp add: findQCliPath_def)
next
  case None
  show ?thesis
  proof (cases "where_lookup e")
    case (Some p)
    with None show ?thesis using where_lookup_exists [of e p] by (simp add: findQCliPath_def)
  next
    case w: None
    show ?thesis
    proof (cases "List.find (existsSync e) (searchPaths e)")
      case n: None
      with None w show ?thesis by (simp add: findQCliPath_def first_existing_find lit_def)
    next
      case (Some q)
      then have "q \<in> set (searchPaths e)" by (simp add: find_member)
      with searchPaths_nonempty [of e] have "q \<noteq> []" by auto
      with None w Some show ?thesis by (simp add: findQCliPath_def first_existing_find)
    qed
  qed
qed

text \<open>Trimming twice is trimming once, so a one-line output is read as the code reads it.\<close>

lemma trim_trim: "trim (trim s) = trim s"
proof -
  define a where "a = dropWhile isWhiteSpace s"
  define b where "b = dropWhile isWhiteSpace (rev a)"
  have t: "trim s = rev b" by (simp add: trim_def a_def b_def)
  have b2: "dropWhile isWhiteSpace b = b" unfolding b_def by (rule dropWhile_idem)
  have b1: "dropWhile isWhiteSpace (rev b) = rev b"
  proof (cases "b = []")
    case True
    then show ?thesis by simp
  next
    case False
    have "rev a = takeWhile isWhiteSpace (rev a) @ b" by (simp add: b_def)
    with False have "last (rev a) = last b" by (metis last_appendR)
    moreover from False have an: "a \<noteq> []" by (auto simp: b_def)
    ultimately have "last b = hd a" by (simp add: last_rev)
    moreover have "\<not> isWhiteSpace (hd a)"
      using an unfolding a_def by (rule hd_dropWhile)
    ultimately have "\<not> isWhiteSpace (hd (rev b))" using False by (simp add: hd_rev)
    with False show ?thesis by (cases "rev b") auto
  qed
  have "trim (rev b) = rev b" by (simp add: trim_def b1 b2)
  with t show ?thesis by simp
qed

lemma first_line_one_line:
  "(0x0A :: code_unit) \<notin> set xs \<Longrightarrow> takeWhile (\<lambda>c. c \<noteq> 0x0A) xs = xs"
  by (induction xs) auto

lemma printed_path_one_line: "0x0A \<notin> set (trim out) \<Longrightarrow> printed_path out = trim out"
proof -
  assume l: "0x0A \<notin> set (trim out)"
  have "takeWhile (\<lambda>c. c \<noteq> 0x0A) (trim out) = trim out"
    using l by (rule first_line_one_line)
  then have "printed_path out = trim (trim out)"
    unfolding printed_path_def by (rule arg_cong)
  then show ?thesis by (simp only: trim_trim)
qed

lemma findQCliPath_one_line:
  assumes "\<And>out. which_q e = Some out \<Longrightarrow> 0x0A \<notin> set (trim out)"
    and "\<And>out. where_q e = Some out \<Longrightarrow> 0x0A \<notin> set (trim out)"
  shows "findQCliPath e = locate_spec e"
proof -
  have w: "which_lookup e = accepted_path e (which_q e)"
  proof (cases "which_q e")
    case None
    then show ?thesis by (simp add: which_lookup_def accepted_path_def)
  next
    case (Some out)
    with assms(1) have "printed_path out = trim out" by (simp add: printed_path_one_line)
    with Some show ?thesis by (simp add: which_lookup_def accepted_path_def Let_def)
  qed
  have x: "where_lookup e = (if platform e = Win32 then accepted_path e (where_q e) else None)"
  proof (cases "where_q e")
    case None
    then show ?thesis by (simp add: where_lookup_def accepted_path_def)
  next
    case (Some out)
    with assms(2) have l: "0x0A \<notin> set (trim out)" by simp
    have p: "printed_path out = trim out" using l by (rule printed_path_one_line)
    have f: "takeWhile (\<lambda>c. c \<noteq> 0x0A) (trim out) = trim out"
      using l by (rule first_line_one_line)
    show ?thesis
      by (simp only: where_lookup_def accepted_path_def Let_def Some option.case p f)
  qed
  show ?thesis
    by (simp add: findQCliPath_def locate_spec_def native_lookup_def w x first_existing_find
        split: option.splits)
qed

subsection \<open>Two matches on Windows\<close>

lemma where_two_matches:
  "where_lookup windows_two_matches = None"
  by (simp add: where_lookup_def windows_two_matches_def tools_q_def other_q_def trim_def
      isWhiteSpace_def lit_def backslash_def Let_def)

lemma printed_two_matches:
  "printed_path (tools_q @ [0x0D, 0x0A] @ other_q @ [0x0D, 0x0A]) = tools_q"
  by (simp add: printed_path_def tools_q_def other_q_def trim_def isWhiteSpace_def lit_def
      backslash_def)

lemma find_two_matches:
  "List.find (existsSync windows_two_matches) (searchPaths windows_two_matches) = None"
  by (simp add: searchPaths_def windows_two_matches_def tools_q_def other_q_def env_string_def
      lit_def backslash_def)

text \<open>
  C7 asks for the path the native lookup printed whenever that path exists. On Windows
  \<^verbatim>\<open>where\<close> ends each line with carriage return and line feed, and the code cuts the
  output at the first line feed only. When \<^verbatim>\<open>where\<close> prints two paths, the first line keeps
  its carriage return, the existence test fails on it, and the lookup is discarded: the
  function returns the bare name \<^verbatim>\<open>q\<close> although the path printed first exists, where the
  specification's \<open>locate\<close> returns that path.
\<close>

theorem findQCliPath_where_crlf:
  "findQCliPath windows_two_matches = lit ''q''
   \<and> where_lookup windows_two_matches = None
   \<and> locate_spec windows_two_matches = tools_q
   \<and> existsSync windows_two_matches tools_q"
proof -
  have w: "which_lookup windows_two_matches = None"
    by (simp add: which_lookup_def windows_two_matches_def)
  have f: "findQCliPath windows_two_matches = lit ''q''"
    by (simp add: findQCliPath_def w where_two_matches first_existing_find find_two_matches)
  have e: "existsSync windows_two_matches tools_q"
    by (simp add: windows_two_matches_def)
  have n: "tools_q \<noteq> []"
    by (simp add: tools_q_def lit_def)
  have a: "accepted_path windows_two_matches (where_q windows_two_matches) = Some tools_q"
    using n
    by (simp add: accepted_path_def windows_two_matches_def printed_two_matches [simplified])
  have b: "accepted_path windows_two_matches (which_q windows_two_matches) = None"
    by (simp add: accepted_path_def windows_two_matches_def)
  have p: "platform windows_two_matches = Win32"
    by (simp add: windows_two_matches_def)
  have l: "locate_spec windows_two_matches = tools_q"
    by (simp add: locate_spec_def native_lookup_def a b p)
  from f where_two_matches l e show ?thesis by simp
qed

subsection \<open>Decimal numerals determine the number\<close>

lemma digits_value_snoc: "digits_value (cs @ [c]) = digits_value cs * 10 + unat (c - 0x30)"
  by (induction cs) simp_all

lemma digit_unit: "d < 10 \<Longrightarrow> unat ((0x30 :: code_unit) + of_nat d - 0x30) = d"
  by (simp add: unat_of_nat)

lemma digits_value_digits: "digits_value (digits n) = n"
proof (induction n rule: digits.induct)
  case (1 n)
  show ?case
  proof (cases "n < 10")
    case True
    then show ?thesis by (subst digits.simps) (simp add: unat_of_nat)
  next
    case False
    have "unat ((0x30 :: code_unit) + of_nat (n mod 10) - 0x30) = n mod 10"
      by (rule digit_unit) simp
    with False 1 show ?thesis
      by (subst digits.simps) (simp add: digits_value_snoc)
  qed
qed

lemma digits_inj: "digits a = digits b \<Longrightarrow> a = b"
  by (metis digits_value_digits)

lemma digit_not_minus: "d < 10 \<Longrightarrow> (0x30 :: code_unit) + of_nat d \<noteq> 0x2D"
proof
  assume d: "d < 10" and e: "(0x30 :: code_unit) + of_nat d = 0x2D"
  have u: "unat ((0x30 :: code_unit) + of_nat d) = 48 + d"
    using d by (simp add: unat_word_ariths unat_of_nat)
  have "unat ((0x30 :: code_unit) + of_nat d) = unat (0x2D :: code_unit)"
    using e by (rule arg_cong)
  with u show False by simp
qed

lemma digits_hd: "\<exists>d cs. d < 10 \<and> digits n = (0x30 + of_nat d) # cs"
proof (induction n rule: digits.induct)
  case (1 n)
  show ?case
  proof (cases "n < 10")
    case True
    then show ?thesis by (subst digits.simps) auto
  next
    case False
    with 1 obtain d cs where "d < 10" "digits (n div 10) = (0x30 + of_nat d) # cs" by blast
    with False show ?thesis by (subst digits.simps) auto
  qed
qed

lemma digits_not_minus: "digits n \<noteq> 0x2D # cs" "0x2D # cs \<noteq> digits n"
  using digits_hd [of n] digit_not_minus by auto

lemma toString_inj: "(toString a = toString b) = (a = b)"
proof
  assume e: "toString a = toString b"
  show "a = b"
  proof (cases "a < 0")
    case True
    show ?thesis
    proof (cases "b < 0")
      case True
      with \<open>a < 0\<close> e have "nat (- a) = nat (- b)" by (simp add: toString_def digits_inj)
      with True \<open>a < 0\<close> show ?thesis by simp
    next
      case False
      with \<open>a < 0\<close> e show ?thesis by (simp add: toString_def digits_not_minus)
    qed
  next
    case False
    show ?thesis
    proof (cases "b < 0")
      case True
      with False e show ?thesis by (simp add: toString_def digits_not_minus)
    next
      case bf: False
      with False e have "nat a = nat b" by (simp add: toString_def digits_inj)
      with False bf show ?thesis by simp
    qed
  qed
qed simp

subsection \<open>The registry invariant holds in every run\<close>

lemma update_processes:
  "distinct (map (\<lambda>(k, s). process s) reg) \<Longrightarrow>
   list_all (\<lambda>(k, s). process s < n) reg \<Longrightarrow> process v = n \<Longrightarrow>
   distinct (map (\<lambda>(k, s). process s) (AList.update key v reg))
   \<and> list_all (\<lambda>(k, s). process s < Suc n) (AList.update key v reg)"
proof (induction reg)
  case Nil
  then show ?case by simp
next
  case (Cons a reg)
  obtain k s where a: "a = (k, s)" by (cases a)
  have sub: "set (AList.update key v reg) \<subseteq> insert (key, v) (set reg)"
    by (induction reg) auto
  have notin: "process s \<notin> (\<lambda>(k, s). process s) ` set (AList.update key v reg)"
  proof
    assume "process s \<in> (\<lambda>(k, s). process s) ` set (AList.update key v reg)"
    then obtain k' s' where m: "(k', s') \<in> set (AList.update key v reg)"
      and e: "process s' = process s"
      by auto
    from m sub have "(k', s') = (key, v) \<or> (k', s') \<in> set reg" by auto
    then show False
    proof
      assume "(k', s') = (key, v)"
      with e Cons.prems a show False by simp
    next
      assume "(k', s') \<in> set reg"
      then have "process s' \<in> (\<lambda>(k, s). process s) ` set reg" by force
      with e Cons.prems a show False by simp
    qed
  qed
  have less: "list_all (\<lambda>(k, s). process s < Suc n) reg"
    using Cons.prems by (auto simp: list_all_iff)
  show ?case
  proof (cases "k = key")
    case True
    with a Cons.prems less show ?thesis by (auto simp: list_all_iff)
  next
    case False
    with a Cons notin show ?thesis by (auto simp: list_all_iff)
  qed
qed

lemma delete_processes:
  "distinct (map (\<lambda>(k, s). process s) reg) \<Longrightarrow>
   distinct (map (\<lambda>(k, s). process s) (AList.delete key reg))"
  by (simp add: AList.delete_eq distinct_map_filter)

lemma delete_bound: "list_all P reg \<Longrightarrow> list_all P (AList.delete key reg)"
  by (auto simp: AList.delete_eq list_all_iff)

lemma registry_inv_delete:
  "registry_inv m \<Longrightarrow> registry_inv (m\<lparr>sessions := sessions_delete sessionId (sessions m)\<rparr>)"
  by (simp add: registry_inv_def sessions_delete_def distinct_delete delete_processes
      delete_bound)

lemma registry_inv_send: "registry_inv (send msg m) = registry_inv m"
  by (simp add: registry_inv_def send_def)

lemma registry_inv_create:
  "registry_inv m \<Longrightarrow> registry_inv (snd (create_session now r m))"
proof (cases r)
  case Spawned
  assume inv: "registry_inv m"
  let ?v = "\<lparr>process = spawned m, state = Ready,
             type = (if useNodePty m then Pty else Spawn)\<rparr>"
  from inv have
    "distinct (map (\<lambda>(k, s). process s) (AList.update (toString now) ?v (sessions m)))
     \<and> list_all (\<lambda>(k, s). process s < Suc (spawned m))
         (AList.update (toString now) ?v (sessions m))"
    by (intro update_processes) (simp_all add: registry_inv_def)
  with inv Spawned show ?thesis
    by (simp add: registry_inv_def create_session_def Let_def sessions_set_def
        distinct_update)
next
  case (SpawnThrows msg)
  assume "registry_inv m"
  with SpawnThrows show ?thesis by (simp add: create_session_def)
qed

lemma registry_inv_step: "registry_inv m \<Longrightarrow> registry_inv (step wt ev m)"
proof (cases ev)
  case (CreateSession now r)
  assume "registry_inv m"
  with CreateSession show ?thesis by (simp add: registry_inv_create)
next
  case (PtyExit sessionId exitCode signal)
  assume "registry_inv m"
  from registry_inv_delete [OF this, of sessionId] PtyExit show ?thesis
    by (simp add: pty_onExit_def Let_def registry_inv_send)
next
  case (SpawnClose sessionId code)
  assume "registry_inv m"
  from registry_inv_delete [OF this, of sessionId] SpawnClose show ?thesis
    by (simp add: spawn_onClose_def Let_def registry_inv_send)
next
  case (SpawnError sessionId message)
  assume "registry_inv m"
  from registry_inv_delete [OF this, of sessionId] SpawnError show ?thesis
    by (simp add: spawn_onError_def Let_def registry_inv_send)
next
  case (KillSession sessionId)
  assume inv: "registry_inv m"
  from inv registry_inv_delete [OF inv, of sessionId] KillSession show ?thesis
    by (simp add: kill_session_def registry_inv_def split: option.splits)
next
  case (SendToQ sessionId input)
  assume "registry_inv m"
  with SendToQ show ?thesis
    by (simp add: send_to_q_def registry_inv_def Let_def split: option.splits)
qed (simp_all add: registry_inv_def pty_onData_def stdout_onData_def stderr_onData_def
      send_def window_onClose_def close_app_def window_all_closed_def Let_def
      split: browser_window.splits)

lemma registry_inv_run: "registry_inv m \<Longrightarrow> registry_inv (run wt evs m)"
  by (induction evs arbitrary: m) (simp_all add: registry_inv_step)

lemma registry_inv_init: "registry_inv (init nodePty)"
  by (simp add: registry_inv_def init_def)

text \<open>
  C1, as the code has it. The session id is the decimal numeral of the clock reading
  \<^verbatim>\<open>Date.now()\<close> taken by the creation call, so two creations get different ids exactly
  when their clock readings differ. In every state the main process can reach, no id and
  no process object occurs in two registry entries.
\<close>

theorem session_ids_from_clock:
  "fst (create_session now Spawned m) = Inr (toString now)
   \<and> (toString a = toString b) = (a = b)
   \<and> distinct (map fst (sessions (run wt evs (init nodePty))))
   \<and> distinct (map (\<lambda>(sessionId, session). process session)
                 (sessions (run wt evs (init nodePty))))"
  using registry_inv_run [OF registry_inv_init, of wt evs nodePty]
  by (simp add: create_session_def Let_def toString_inj registry_inv_def)

text \<open>
  C1 as stated fails: two creation calls that read the same clock value get the same id.
  The second call replaces the registry entry of the first, whose process is then in no
  entry.
\<close>

theorem session_id_collision:
  "fst (create_session 1700000000000 Spawned (init True)) = Inr (lit ''1700000000000'')
   \<and> fst (create_session 1700000000000 Spawned
            (snd (create_session 1700000000000 Spawned (init True))))
       = Inr (lit ''1700000000000'')
   \<and> sessions (run never_throws
        [CreateSession 1700000000000 Spawned, CreateSession 1700000000000 Spawned]
        (init True))
       = [(lit ''1700000000000'', \<lparr>process = 1, state = Ready, type = Pty\<rparr>)]
   \<and> spawned (run never_throws
        [CreateSession 1700000000000 Spawned, CreateSession 1700000000000 Spawned]
        (init True)) = 2"
  by (simp add: create_session_def init_def sessions_set_def toString_example Let_def)

subsection \<open>UTF-8: decoding what was encoded\<close>

lemma unat_and_mask: "unat ((w::'a::len word) AND mask n) = unat w mod 2 ^ n"
proof -
  have "w AND mask n = take_bit n w" by (simp add: take_bit_eq_mask)
  then have "unat (w AND mask n) = take_bit n (unat w)" by (simp only: unsigned_take_bit_eq)
  then show ?thesis by (simp only: take_bit_eq_mod)
qed

lemma mask_bytes:
  "unat ((b::byte) AND 0x3F) = unat b mod 64"
  "unat ((b::byte) AND 0x1F) = unat b mod 32"
  "unat ((b::byte) AND 0x0F) = unat b mod 16"
  "unat ((b::byte) AND 0x07) = unat b mod 8"
  using unat_and_mask [of b 6] unat_and_mask [of b 5] unat_and_mask [of b 4]  unat_and_mask [of b 3]
  by (simp_all add: mask_eq_exp_minus_1)

lemma byte_of_nat: "n < 256 \<Longrightarrow> unat (of_nat n :: byte) = n"
  by (simp add: unat_of_nat)

lemma first_byte_nat:
  "n < 256 \<Longrightarrow> first_byte (of_nat n) =
     (if n \<le> 0x7F then (Start, [n])
      else if 0xC2 \<le> n \<and> n \<le> 0xDF then (Cont (n mod 32) 1 0x80 0xBF, [])
      else if 0xE0 \<le> n \<and> n \<le> 0xEF then
        (Cont (n mod 16) 2 (if n = 0xE0 then 0xA0 else 0x80) (if n = 0xED then 0x9F else 0xBF), [])
      else if 0xF0 \<le> n \<and> n \<le> 0xF4 then
        (Cont (n mod 8) 3 (if n = 0xF0 then 0x90 else 0x80) (if n = 0xF4 then 0x8F else 0xBF), [])
      else (Start, [0xFFFD]))"
  by (simp add: first_byte_def word_le_nat_alt mask_bytes byte_of_nat word_unat_eq_iff)

lemma cont_step:
  "n < 256 \<Longrightarrow> utf8_decode (Cont cp need lo hi) (of_nat n # bs) =
     (if unat lo \<le> n \<and> n \<le> unat hi then
        (if need = 1 then (cp * 64 + n mod 64) # utf8_decode Start bs
         else utf8_decode (Cont (cp * 64 + n mod 64) (need - 1) 0x80 0xBF) bs)
      else 0xFFFD # (case first_byte (of_nat n) of (s, out) \<Rightarrow> out @ utf8_decode s bs))"
  by (simp add: word_le_nat_alt mask_bytes byte_of_nat Let_def)

lemma mod_offset: "q < m \<Longrightarrow> (k * m + q) mod m = (q::nat)"
  by simp

lemma mod32_offset: "q < 32 \<Longrightarrow> (192 + q) mod 32 = (q::nat)"
  using mod_offset [of q 32 6] by simp

lemma mod64_offset: "q < 64 \<Longrightarrow> (128 + q) mod 64 = (q::nat)"
  using mod_offset [of q 64 2] by simp

lemma mod16_offset: "q < 16 \<Longrightarrow> (224 + q) mod 16 = (q::nat)"
  using mod_offset [of q 16 14] by simp

lemma mod8_offset: "q < 8 \<Longrightarrow> (240 + q) mod 8 = (q::nat)"
  using mod_offset [of q 8 30] by simp

lemma lead2: "2 \<le> q \<Longrightarrow> q < 32 \<Longrightarrow> first_byte (of_nat (0xC0 + q)) = (Cont q 1 0x80 0xBF, [])"
  using mod32_offset [of q] first_byte_nat [of "0xC0 + q"] by simp

lemma lead3: "q < 16 \<Longrightarrow> first_byte (of_nat (0xE0 + q)) =
    (Cont q 2 (if q = 0 then 0xA0 else 0x80) (if q = 13 then 0x9F else 0xBF), [])"
  using mod16_offset [of q] first_byte_nat [of "0xE0 + q"] by simp

lemma lead4: "q < 5 \<Longrightarrow> first_byte (of_nat (0xF0 + q)) =
    (Cont q 3 (if q = 0 then 0x90 else 0x80) (if q = 4 then 0x8F else 0xBF), [])"
  using mod8_offset [of q] first_byte_nat [of "0xF0 + q"] by simp

lemma cont_last: "r < 64 \<Longrightarrow> unat lo \<le> 0x80 + r \<Longrightarrow> 0x80 + r \<le> unat hi \<Longrightarrow>
   utf8_decode (Cont c 1 lo hi) (of_nat (0x80 + r) # bs) = (c * 64 + r) # utf8_decode Start bs"
  using mod64_offset [of r] cont_step [of "0x80 + r" c 1 lo hi bs] by simp

lemma cont_more: "r < 64 \<Longrightarrow> unat lo \<le> 0x80 + r \<Longrightarrow> 0x80 + r \<le> unat hi \<Longrightarrow> 1 < need \<Longrightarrow>
   utf8_decode (Cont c need lo hi) (of_nat (0x80 + r) # bs)
     = utf8_decode (Cont (c * 64 + r) (need - 1) 0x80 0xBF) bs"
  using mod64_offset [of r] cont_step [of "0x80 + r" c need lo hi bs] by simp

lemma start_lead:
  "first_byte b = (s, []) \<Longrightarrow> utf8_decode Start (b # rest) = utf8_decode s rest"
  by simp

lemma decode_code_point:
  assumes "scalar cp"
  shows "utf8_decode Start (utf8_of_code_point cp @ bs) = cp # utf8_decode Start bs"
proof -
  define r1 where "r1 = cp mod 64"
  define q1 where "q1 = cp div 64"
  define r2 where "r2 = q1 mod 64"
  define q2 where "q2 = q1 div 64"
  define r3 where "r3 = q2 mod 64"
  define q3 where "q3 = q2 div 64"
  have e1: "q1 * 64 + r1 = cp" by (simp add: q1_def r1_def)
  have e2: "q2 * 64 + r2 = q1" by (simp add: q2_def r2_def)
  have e3: "q3 * 64 + r3 = q2" by (simp add: q3_def r3_def)
  have r: "r1 < 64" "r2 < 64" "r3 < 64" by (simp_all add: r1_def r2_def r3_def)
  consider "cp < 0x80" | "0x80 \<le> cp \<and> cp < 0x800" | "0x800 \<le> cp \<and> cp < 0x10000"
    | "0x10000 \<le> cp \<and> cp < 0x110000"
    using assms unfolding scalar_def by linarith
  then show ?thesis
  proof cases
    case 1
    then show ?thesis by (simp add: utf8_of_code_point_def first_byte_nat)
  next
    case 2
    have enc: "utf8_of_code_point cp @ bs = of_nat (0xC0 + q1) # of_nat (0x80 + r1) # bs"
      using 2 by (simp add: utf8_of_code_point_def q1_def r1_def del: of_nat_add)
    have q: "2 \<le> q1" "q1 < 32" using 2 e1 r by linarith+
    have "utf8_decode Start (of_nat (0xC0 + q1) # of_nat (0x80 + r1) # bs)
            = utf8_decode (Cont q1 1 0x80 0xBF) (of_nat (0x80 + r1) # bs)"
      by (rule start_lead) (rule lead2 [OF q])
    also have "\<dots> = (q1 * 64 + r1) # utf8_decode Start bs"
      by (rule cont_last) (use r in simp_all)
    finally show ?thesis by (simp only: enc e1)
  next
    case 3
    have enc: "utf8_of_code_point cp @ bs
                 = of_nat (0xE0 + q2) # of_nat (0x80 + r2) # of_nat (0x80 + r1) # bs"
      using 3 by (simp add: utf8_of_code_point_def q1_def r1_def q2_def r2_def del: of_nat_add)
    have q: "q2 < 16" using 3 e1 e2 r by linarith
    have lo: "q2 = 0 \<Longrightarrow> 32 \<le> r2" using 3 e1 e2 r by linarith
    have hi: "q2 = 13 \<Longrightarrow> r2 \<le> 31" using 3 assms e1 e2 r unfolding scalar_def by linarith
    have "utf8_decode Start (of_nat (0xE0 + q2) # of_nat (0x80 + r2) # of_nat (0x80 + r1) # bs)
            = utf8_decode (Cont q2 2 (if q2 = 0 then 0xA0 else 0x80) (if q2 = 13 then 0x9F else 0xBF))
                (of_nat (0x80 + r2) # of_nat (0x80 + r1) # bs)"
      by (rule start_lead) (rule lead3 [OF q])
    also have "\<dots> = utf8_decode (Cont (q2 * 64 + r2) (2 - 1) 0x80 0xBF) (of_nat (0x80 + r1) # bs)"
      by (rule cont_more) (use r lo hi in \<open>simp_all split: if_splits\<close>)
    also have "\<dots> = (q1 * 64 + r1) # utf8_decode Start bs"
      unfolding e2 using cont_last [of r1 "0x80" "0xBF" q1 bs] r by simp
    finally show ?thesis by (simp only: enc e1)
  next
    case 4
    have enc: "utf8_of_code_point cp @ bs
                 = of_nat (0xF0 + q3) # of_nat (0x80 + r3) # of_nat (0x80 + r2)
                     # of_nat (0x80 + r1) # bs"
      using 4 by (simp add: utf8_of_code_point_def q1_def r1_def q2_def r2_def q3_def r3_def
          del: of_nat_add)
    have q: "q3 < 5" using 4 e1 e2 e3 r by linarith
    have lo: "q3 = 0 \<Longrightarrow> 16 \<le> r3" using 4 e1 e2 e3 r by linarith
    have hi: "q3 = 4 \<Longrightarrow> r3 \<le> 15" using 4 e1 e2 e3 r by linarith
    have "utf8_decode Start (of_nat (0xF0 + q3) # of_nat (0x80 + r3) # of_nat (0x80 + r2)
                     # of_nat (0x80 + r1) # bs)
            = utf8_decode (Cont q3 3 (if q3 = 0 then 0x90 else 0x80) (if q3 = 4 then 0x8F else 0xBF))
                (of_nat (0x80 + r3) # of_nat (0x80 + r2) # of_nat (0x80 + r1) # bs)"
      by (rule start_lead) (rule lead4 [OF q])
    also have "\<dots> = utf8_decode (Cont (q3 * 64 + r3) (3 - 1) 0x80 0xBF)
                        (of_nat (0x80 + r2) # of_nat (0x80 + r1) # bs)"
      by (rule cont_more) (use r lo hi in \<open>simp_all split: if_splits\<close>)
    also have "\<dots> = utf8_decode (Cont (q2 * 64 + r2) 1 0x80 0xBF) (of_nat (0x80 + r1) # bs)"
      unfolding e3 using cont_more [of r2 "0x80" "0xBF" 2 q2 "of_nat (0x80 + r1) # bs"] r by simp
    also have "\<dots> = (q1 * 64 + r1) # utf8_decode Start bs"
      unfolding e2 using cont_last [of r1 "0x80" "0xBF" q1 bs] r by simp
    finally show ?thesis by (simp only: enc e1)
  qed
qed

lemma decode_encoded:
  "list_all scalar cps \<Longrightarrow> utf8_decode Start (concat (map utf8_of_code_point cps)) = cps"
  by (induction cps) (simp_all add: decode_code_point)

lemma word_offset: "k \<le> unat (c::code_unit) \<Longrightarrow> of_nat k + of_nat (unat c - k) = c"
  by (simp flip: of_nat_add)

lemma unit_scalar: "\<not> is_surrogate c \<Longrightarrow> scalar (unat c) \<and> utf16_units (unat c) = [c]"
proof -
  assume n: "\<not> is_surrogate c"
  have "unat c < 65536" using unsigned_less [of c] by simp
  with n show ?thesis
    by (simp add: is_surrogate_def scalar_def utf16_units_def word_le_nat_alt)
qed

lemma pair_scalar:
  assumes "surrogate_pair c d"
  shows "scalar (0x10000 + (unat c - 0xD800) * 0x400 + (unat d - 0xDC00))
         \<and> utf16_units (0x10000 + (unat c - 0xD800) * 0x400 + (unat d - 0xDC00)) = [c, d]"
proof -
  define h where "h = unat c - 0xD800"
  define l where "l = unat d - 0xDC00"
  have c: "0xD800 \<le> unat c" "unat c \<le> 0xDBFF" and d: "0xDC00 \<le> unat d" "unat d \<le> 0xDFFF"
    using assms by (simp_all add: surrogate_pair_def word_le_nat_alt)
  have h: "h < 0x400" and l: "l < 0x400" using c d by (simp_all add: h_def l_def)
  have dv: "(h * 0x400 + l) div 0x400 = h" and md: "(h * 0x400 + l) mod 0x400 = l"
    using l by simp_all
  have hc: "(0xD800 :: code_unit) + of_nat h = c"
    using word_offset [of "0xD800" c] c by (simp add: h_def)
  have ld: "(0xDC00 :: code_unit) + of_nat l = d"
    using word_offset [of "0xDC00" d] d by (simp add: l_def)
  have sc: "scalar (0x10000 + h * 0x400 + l)"
    using h l by (simp add: scalar_def)
  have "utf16_units (0x10000 + h * 0x400 + l) = [c, d]"
    using dv md hc ld by (simp add: utf16_units_def add.assoc)
  with sc show ?thesis by (simp only: h_def l_def)
qed

lemma code_points_well_formed:
  "well_formed s \<Longrightarrow>
     list_all scalar (code_points s) \<and> concat (map utf16_units (code_points s)) = s"
proof (induction s rule: code_points.induct)
  case 1
  show ?case by simp
next
  case (2 c)
  then show ?case using unit_scalar [of c] by simp
next
  case (3 c d cs)
  show ?case
  proof (cases "surrogate_pair c d")
    case True
    with 3 have "well_formed cs" by simp
    with 3 True have ih: "list_all scalar (code_points cs) \<and> concat (map utf16_units (code_points cs)) = cs"
      by blast
    from True pair_scalar [of c d] ih show ?thesis by simp
  next
    case False
    with 3 have wf: "\<not> is_surrogate c" "well_formed (d # cs)" by simp_all
    with 3 False have ih: "list_all scalar (code_points (d # cs))
        \<and> concat (map utf16_units (code_points (d # cs))) = d # cs"
      by blast
    from False wf unit_scalar [of c] ih show ?thesis by simp
  qed
qed

lemma toString_Buffer_from: "well_formed s \<Longrightarrow> buffer_toString (Buffer_from s) = s"
  using code_points_well_formed [of s]
  by (simp add: buffer_toString_def Buffer_from_def decode_encoded)

lemma ascii_decode: "list_all (\<lambda>b. b \<le> 0x7F) data \<Longrightarrow> utf8_decode Start data = map unat data"
  by (induction data) (simp_all add: first_byte_def)

lemma ascii_toString:
  "list_all (\<lambda>b. b \<le> 0x7F) data \<Longrightarrow> buffer_toString data = map ucast data"
proof -
  assume a: "list_all (\<lambda>b. b \<le> 0x7F) data"
  have "\<And>b::byte. utf16_units (unat b) = [ucast b]"
  proof -
    fix b :: byte
    have "unat b < 256" using unsigned_less [of b] by simp
    then show "utf16_units (unat b) = [ucast b]" by (simp add: utf16_units_def)
  qed
  with a show ?thesis
    by (simp add: buffer_toString_def ascii_decode comp_def)
qed

lemma unat_ucast_byte: "unat (ucast (b :: byte) :: code_unit) = unat b"
proof -
  have "unat b < 256" using unsigned_less [of b] by simp
  then show ?thesis by (simp add: unsigned_ucast_eq take_bit_eq_mod)
qed

lemma ascii_code_points:
  "list_all (\<lambda>b. b \<le> 0x7F) (data :: buffer) \<Longrightarrow>
     code_points (map ucast data :: js_string) = map unat data"
proof (induction data)
  case Nil
  show ?case by simp
next
  case (Cons b data)
  then have b: "unat b \<le> 127" by (simp add: word_le_nat_alt)
  have ns: "\<not> is_surrogate (ucast b :: code_unit)"
    using b by (simp add: is_surrogate_def word_le_nat_alt unat_ucast_byte)
  have np: "\<not> surrogate_pair (ucast b :: code_unit) d" for d
    using b by (simp add: surrogate_pair_def word_le_nat_alt unat_ucast_byte)
  show ?case
  proof (cases data)
    case Nil
    with ns show ?thesis by (simp add: unat_ucast_byte)
  next
    case (Cons d rest)
    with Cons.IH Cons.prems ns np show ?thesis by (simp add: unat_ucast_byte)
  qed
qed

lemma ascii_Buffer_from:
  "list_all (\<lambda>b. b \<le> 0x7F) data \<Longrightarrow> Buffer_from (map ucast data) = data"
proof -
  assume a: "list_all (\<lambda>b. b \<le> 0x7F) data"
  have one: "b \<le> 0x7F \<Longrightarrow> utf8_of_code_point (unat b) = [b]" for b :: byte
    by (simp add: utf8_of_code_point_def word_le_nat_alt)
  from a have "concat (map utf8_of_code_point (map unat data)) = data"
    by (induction data) (simp_all add: one)
  with a show ?thesis by (simp add: Buffer_from_def ascii_code_points)
qed

subsection \<open>Sequences of chunks\<close>

lemma run_pty_data:
  "webContents (run wt (map (PtyData sessionId) chunks) m) =
     webContents m @ (if window_live (mainWindow m)
        then map (\<lambda>text. QOutput sessionId text (Some (isPrompt_test text)) None) chunks
        else [])"
  by (induction chunks arbitrary: m) (simp_all add: pty_onData_sent data_keeps_window)

lemma run_stdout_data:
  "webContents (run wt (map (StdoutData sessionId) chunks) m) =
     webContents m @ (if window_live (mainWindow m)
        then map (\<lambda>data. QOutput sessionId (buffer_toString data)
                          (Some (isPrompt_test (buffer_toString data))) None) chunks
        else [])"
  by (induction chunks arbitrary: m) (simp_all add: stdout_onData_sent data_keeps_window)

lemma run_stderr_data:
  "webContents (run wt (map (StderrData sessionId) chunks) m) =
     webContents m @ (if window_live (mainWindow m)
        then map (\<lambda>data. QOutput sessionId (buffer_toString data) None (Some True)) chunks
        else [])"
  by (induction chunks arbitrary: m) (simp_all add: stderr_onData_sent data_keeps_window)

text \<open>
  C3, as the code has it. While a live window exists, the chunks of a session are sent in
  the order they arrive, one message per chunk (none is sent without a live window). On
  the pseudo-terminal backend the message carries the chunk unchanged. On the pipe backend
  it carries the chunk decoded as UTF-8: when the chunk is the UTF-8 form of a well-formed
  text, that text; when the chunk is ASCII, the same characters, line ends included, whose
  bytes are the chunk again.
\<close>

theorem output_order_and_payload:
  "webContents (run wt (map (PtyData sessionId) texts) m) =
     webContents m @ (if window_live (mainWindow m)
        then map (\<lambda>text. QOutput sessionId text (Some (isPrompt_test text)) None) texts
        else [])
   \<and> webContents (run wt (map (StdoutData sessionId) chunks) m) =
     webContents m @ (if window_live (mainWindow m)
        then map (\<lambda>data. QOutput sessionId (buffer_toString data)
                          (Some (isPrompt_test (buffer_toString data))) None) chunks
        else [])
   \<and> webContents (run wt (map (StderrData sessionId) chunks) m) =
     webContents m @ (if window_live (mainWindow m)
        then map (\<lambda>data. QOutput sessionId (buffer_toString data) None (Some True)) chunks
        else [])
   \<and> (well_formed str \<longrightarrow> buffer_toString (Buffer_from str) = str)
   \<and> (list_all (\<lambda>b. b \<le> 0x7F) data \<longrightarrow>
        buffer_toString data = map ucast data
        \<and> Buffer_from (buffer_toString data) = data)"
  by (simp add: run_pty_data run_stdout_data run_stderr_data toString_Buffer_from
      ascii_toString ascii_Buffer_from)

theorem output_order_and_payload_witness:
  "well_formed [0xD83D, 0xDE00, 0xE9]
   \<and> buffer_toString (Buffer_from [0xD83D, 0xDE00, 0xE9]) = [0xD83D, 0xDE00, 0xE9]
   \<and> list_all (\<lambda>b. b \<le> 0x7F) [0x6F, 0x6B, 0x0D, 0x0A :: byte]
   \<and> buffer_toString [0x6F, 0x6B, 0x0D, 0x0A] = [0x6F, 0x6B, 0x0D, 0x0A]
   \<and> Buffer_from (buffer_toString [0x6F, 0x6B, 0x0D, 0x0A]) = [0x6F, 0x6B, 0x0D, 0x0A]"
proof -
  have w: "well_formed [0xD83D, 0xDE00, 0xE9]"
    by (simp add: surrogate_pair_def is_surrogate_def)
  have a: "list_all (\<lambda>b. b \<le> 0x7F) [0x6F, 0x6B, 0x0D, 0x0A :: byte]"
    by simp
  note t = output_order_and_payload [where str = "[0xD83D, 0xDE00, 0xE9]"
      and data = "[0x6F, 0x6B, 0x0D, 0x0A]" and wt = never_throws and m = spawn_example
      and sessionId = "lit ''1700000000000''" and texts = "[]" and chunks = "[]"]
  from t w have c1: "buffer_toString (Buffer_from [0xD83D, 0xDE00, 0xE9]) = [0xD83D, 0xDE00, 0xE9]"
    by blast
  from t a have c2: "buffer_toString [0x6F, 0x6B, 0x0D, 0x0A]
                       = map ucast [0x6F, 0x6B, 0x0D, 0x0A :: byte]"
    by blast
  from t a have c3: "Buffer_from (buffer_toString [0x6F, 0x6B, 0x0D, 0x0A])
                       = [0x6F, 0x6B, 0x0D, 0x0A]"
    by blast
  from c2 have c2': "buffer_toString [0x6F, 0x6B, 0x0D, 0x0A] = [0x6F, 0x6B, 0x0D, 0x0A]"
    by simp
  from w a c1 c2' c3 show ?thesis by blast
qed

text \<open>
  C3 as stated fails on the pipe backend: the two bytes of U+00E9 arrive in two chunks, and
  each chunk is sent as U+FFFD, whose bytes are not the chunk's.
\<close>

theorem pipe_payload_reencoded:
  "webContents (run never_throws
      [StdoutData (lit ''1700000000000'') [0xC3], StdoutData (lit ''1700000000000'') [0xA9]]
      spawn_example)
     = [QOutput (lit ''1700000000000'') [0xFFFD] (Some False) None,
        QOutput (lit ''1700000000000'') [0xFFFD] (Some False) None]
   \<and> Buffer_from [0xFFFD] = [0xEF, 0xBF, 0xBD]
   \<and> buffer_toString [0xC3, 0xA9] = [0xE9]"
proof -
  have d: "buffer_toString [0xC3] = [0xFFFD]" "buffer_toString [0xA9] = [0xFFFD]"
    "buffer_toString [0xC3, 0xA9] = [0xE9]"
    by (simp_all add: buffer_toString_def first_byte_def utf16_units_def)
  have p: "isPrompt_test [0xFFFD] = False"
    by (simp add: isPrompt_test_def prompt_alternatives_def lit_def canonicalize_def)
  have b: "Buffer_from [0xFFFD] = [0xEF, 0xBF, 0xBD]"
    by (simp add: Buffer_from_def utf8_of_code_point_def is_surrogate_def)
  show ?thesis
    by (simp add: stdout_onData_sent data_keeps_window d p b) (simp add: spawn_example_eq)
qed

end
